theory Spec2Isabelle
  imports Complex_Main
begin

section \<open>ApologyGenie: the generation handler of app.py\<close>

text \<open>
  The development embeds \<^verbatim>\<open>src/app.py\<close>: the memoised Gemini generator
  (\<^verbatim>\<open>generate_with_gemini\<close> under \<^verbatim>\<open>lru_cache\<close>), the GPT-2 fallback
  (\<^verbatim>\<open>generate_with_gpt2\<close>), the feedback handler (\<^verbatim>\<open>handle_feedback\<close>) and the
  branch of \<^verbatim>\<open>main\<close> that runs when the "Generate Apology" button is pressed.

  A Python \<^verbatim>\<open>str\<close> is represented by its UTF-8 encoding, a \<open>string\<close> of bytes.
  Concatenation, equality, the substring test and \<^verbatim>\<open>replace\<close> act on the encoding
  as they act on the code points. \<^verbatim>\<open>str.strip()\<close> is written out over the encodings
  of the white-space code points. \<^verbatim>\<open>str.lower()\<close> rests on the case tables of
  Unicode, which are not part of the program: it is a parameter of the embedding.
\<close>

subsection \<open>Python string methods used by the source\<close>

text \<open>
  The code points that \<^verbatim>\<open>str.strip()\<close> removes, each as its UTF-8 encoding:
  U+0009 to U+000D, U+001C to U+0020, U+0085, U+00A0, U+1680, U+2000 to U+200A,
  U+2028, U+2029, U+202F, U+205F and U+3000.
\<close>

definition whitespace_utf8 :: "string list" where
  "whitespace_utf8 =
     [[CHR 0x09], [CHR 0x0A], [CHR 0x0B], [CHR 0x0C], [CHR 0x0D], [CHR 0x1C], [CHR 0x1D],
      [CHR 0x1E], [CHR 0x1F], [CHR 0x20], [CHR 0xC2, CHR 0x85], [CHR 0xC2, CHR 0xA0],
      [CHR 0xE1, CHR 0x9A, CHR 0x80], [CHR 0xE2, CHR 0x80, CHR 0x80],
      [CHR 0xE2, CHR 0x80, CHR 0x81], [CHR 0xE2, CHR 0x80, CHR 0x82],
      [CHR 0xE2, CHR 0x80, CHR 0x83], [CHR 0xE2, CHR 0x80, CHR 0x84],
      [CHR 0xE2, CHR 0x80, CHR 0x85], [CHR 0xE2, CHR 0x80, CHR 0x86],
      [CHR 0xE2, CHR 0x80, CHR 0x87], [CHR 0xE2, CHR 0x80, CHR 0x88],
      [CHR 0xE2, CHR 0x80, CHR 0x89], [CHR 0xE2, CHR 0x80, CHR 0x8A],
      [CHR 0xE2, CHR 0x80, CHR 0xA8], [CHR 0xE2, CHR 0x80, CHR 0xA9],
      [CHR 0xE2, CHR 0x80, CHR 0xAF], [CHR 0xE2, CHR 0x81, CHR 0x9F],
      [CHR 0xE3, CHR 0x80, CHR 0x80]]"

definition leading_whitespace :: "string list \<Rightarrow> string \<Rightarrow> nat" where
  \<comment> \<open>the number of bytes of the white-space code point at the head of \<open>s\<close>, or 0\<close>
  "leading_whitespace ws s =
     (case filter (\<lambda>w. w \<noteq> [] \<and> take (length w) s = w) ws of
        [] \<Rightarrow> 0
      | w # _ \<Rightarrow> length w)"

function strip_left :: "string list \<Rightarrow> string \<Rightarrow> string" where
  "strip_left ws s =
     (if s = [] \<or> leading_whitespace ws s = 0 then s
      else strip_left ws (drop (leading_whitespace ws s) s))"
  by pat_completeness auto
termination
  by (relation "measure (\<lambda>(ws, s). length s)") auto

declare strip_left.simps [simp del]

definition py_strip :: "string \<Rightarrow> string" where
  \<comment> \<open>\<^verbatim>\<open>s.strip()\<close>: white space is removed from the left, then from the right\<close>
  "py_strip s =
     rev (strip_left (map rev whitespace_utf8) (rev (strip_left whitespace_utf8 s)))"

fun py_contains :: "string \<Rightarrow> string \<Rightarrow> bool" where
  \<comment> \<open>\<^verbatim>\<open>pat in s\<close>\<close>
  "py_contains pat [] = (pat = [])"
| "py_contains pat (c # cs) = (take (length pat) (c # cs) = pat \<or> py_contains pat cs)"

function py_remove :: "string \<Rightarrow> string \<Rightarrow> string" where
  \<comment> \<open>\<^verbatim>\<open>s.replace(pat, "")\<close>: every non-overlapping occurrence, left to right\<close>
  "py_remove pat s =
     (if pat = [] \<or> s = [] then s
      else if take (length pat) s = pat then py_remove pat (drop (length pat) s)
      else hd s # py_remove pat (tl s))"
  by pat_completeness auto
termination
  by (relation "measure (\<lambda>(pat, s). length s)") auto

declare py_remove.simps [simp del]

subsection \<open>Configuration constants\<close>

definition CACHE_SIZE :: nat where
  "CACHE_SIZE = 100"

definition MAX_RETRIES :: nat where
  "MAX_RETRIES = 2"

subsection \<open>History entries and feedback\<close>

text \<open>
  An entry of \<^verbatim>\<open>st.session_state.history\<close> is the dictionary built in \<^verbatim>\<open>main\<close>;
  \<^verbatim>\<open>feedback\<close> starts as \<^verbatim>\<open>None\<close>.
\<close>

record history_entry =
  entry_id :: string
  timestamp :: string
  situation :: string
  tone :: string
  apology :: string
  model :: string
  feedback :: "bool option"

text \<open>
  \<^verbatim>\<open>handle_feedback\<close> walks the history in order, writes the feedback of the first
  entry whose id matches and breaks out of the loop.
\<close>

fun handle_feedback :: "history_entry list \<Rightarrow> string \<Rightarrow> bool \<Rightarrow> history_entry list" where
  "handle_feedback [] eid is_positive = []"
| "handle_feedback (entry # rest) eid is_positive =
     (if entry_id entry = eid then entry\<lparr>feedback := Some is_positive\<rparr> # rest
      else entry # handle_feedback rest eid is_positive)"

subsection \<open>What the program is given: the two models and the libraries\<close>

text \<open>
  The generative models are outside the program. A model is a function from the number
  of calls it has answered so far and the arguments of the call to what the call does,
  which is to raise an exception or to return a text. Of an exception the source reads
  \<^verbatim>\<open>str(e)\<close> and whether it is an instance of a class; the name of its class is kept
  for the reader.
\<close>

datatype py_exception = Raised string string

fun exc_str :: "py_exception \<Rightarrow> string" where
  "exc_str (Raised cls msg) = msg"

type_synonym py_class = "py_exception \<Rightarrow> bool"

definition mentions_quota :: "(string \<Rightarrow> string) \<Rightarrow> py_exception \<Rightarrow> bool" where
  \<comment> \<open>\<^verbatim>\<open>"quota" in str(e).lower()\<close>\<close>
  "mentions_quota lower e = py_contains ''quota'' (lower (exc_str e))"

record generation_config =
  temperature :: real
  max_output_tokens :: nat

type_synonym gemini_model = "nat \<Rightarrow> string \<Rightarrow> generation_config \<Rightarrow> py_exception + string"

type_synonym gpt2_model = "nat \<Rightarrow> string \<Rightarrow> nat \<Rightarrow> nat \<Rightarrow> py_exception + string"

text \<open>
  \<open>gemini\<close> and \<open>gpt2\<close> are the two entries of \<^verbatim>\<open>st.session_state.models\<close>
  (\<open>None\<close> for Gemini when its configuration failed). \<open>str_lower\<close> is
  \<^verbatim>\<open>str.lower\<close>. \<open>genai_APIError\<close> is what the attribute lookup
  \<^verbatim>\<open>genai.APIError\<close> of line 48 finds: a class, given by its instance test, or
  nothing. The module \<^verbatim>\<open>google.generativeai\<close> has no attribute of that name, so
  with the library that the program imports the value is \<open>None\<close>.
\<close>

record environment =
  gemini :: "gemini_model option"
  gpt2 :: "gpt2_model option"
  str_lower :: "string \<Rightarrow> string"
  genai_APIError :: "py_class option"

definition attribute_error :: py_exception where
  \<comment> \<open>what the failed lookup of \<^verbatim>\<open>genai.APIError\<close> raises\<close>
  "attribute_error =
     Raised ''AttributeError''
       (''module 'google.generativeai' has no attribute 'APIError'' @ [CHR 0x27])"

subsection \<open>Session state\<close>

text \<open>
  \<open>gemini_over_limit\<close> and \<open>history\<close> are the keys of \<^verbatim>\<open>st.session_state\<close>,
  which \<^verbatim>\<open>main\<close> initialises only when they are absent. \<open>cache\<close> is the table of
  the function that \<^verbatim>\<open>lru_cache\<close> returned, most recently used key first; it
  belongs to the function object and not to the session state. \<open>gemini_log\<close> and
  \<open>gpt2_log\<close> are not program state: they record, in order, the arguments of every
  call made to each model, so that properties about which backend was invoked can be
  stated.
\<close>

record session =
  gemini_over_limit :: bool
  history :: "history_entry list"
  cache :: "((string \<times> string) \<times> string) list"
  gemini_log :: "(string \<times> generation_config) list"
  gpt2_log :: "string list"

subsection \<open>The memoisation table of \<^verbatim>\<open>lru_cache(maxsize=CACHE_SIZE)\<close>\<close>

definition lru_lookup :: "string \<times> string \<Rightarrow> ((string \<times> string) \<times> string) list \<Rightarrow> string option" where
  "lru_lookup k c = map_of c k"

definition lru_touch :: "string \<times> string \<Rightarrow> string \<Rightarrow> ((string \<times> string) \<times> string) list
    \<Rightarrow> ((string \<times> string) \<times> string) list" where
  \<comment> \<open>a hit moves the key to the most recently used position\<close>
  "lru_touch k v c = (k, v) # filter (\<lambda>kv. fst kv \<noteq> k) c"

definition lru_store :: "string \<times> string \<Rightarrow> string \<Rightarrow> ((string \<times> string) \<times> string) list
    \<Rightarrow> ((string \<times> string) \<times> string) list" where
  \<comment> \<open>a miss stores the result; a full table first drops its least recently used key\<close>
  "lru_store k v c = (if CACHE_SIZE \<le> length c then (k, v) # butlast c else (k, v) # c)"

subsection \<open>\<^verbatim>\<open>generate_with_gemini\<close>\<close>

definition gemini_prompt :: "string \<Rightarrow> string \<Rightarrow> string" where
  "gemini_prompt sit tn =
     ''Write a '' @ tn @ '' apology note for: '' @ sit @ ''. Keep it under 3 sentences.''"

definition gemini_generation_config :: "string \<Rightarrow> generation_config" where
  "gemini_generation_config tn =
     \<lparr>temperature = (if tn = ''funny'' then 7 / 10 else 3 / 10), max_output_tokens = 100\<rparr>"

text \<open>
  The loop \<^verbatim>\<open>for attempt in range(MAX_RETRIES)\<close>, over the list of the attempt numbers
  still to run. A returned text leaves the loop. When the call raises, Python evaluates
  the expression of the clause \<^verbatim>\<open>except genai.APIError as e\<close>. If the lookup finds
  nothing, that evaluation raises \<^verbatim>\<open>AttributeError\<close>, which leaves the function: the
  body of the handler is not entered. If it finds a class, an instance of it that
  mentions the quota sets the flag and is raised again; any other instance is raised
  again on the last attempt and retried before; an exception that is not an instance
  is not caught. After the loop the function returns the empty string.
\<close>

fun gemini_attempts :: "environment \<Rightarrow> gemini_model \<Rightarrow> string \<Rightarrow> generation_config \<Rightarrow> nat list
    \<Rightarrow> session \<Rightarrow> (py_exception + string) \<times> session" where
  "gemini_attempts ms m prompt cfg [] s = (Inr [], s)"
| "gemini_attempts ms m prompt cfg (attempt # rest) s =
     (let s1 = s\<lparr>gemini_log := gemini_log s @ [(prompt, cfg)]\<rparr> in
      case m (length (gemini_log s)) prompt cfg of
        Inr text \<Rightarrow> (Inr text, s1)
      | Inl e \<Rightarrow>
          (case genai_APIError ms of
             None \<Rightarrow> (Inl attribute_error, s1)
           | Some api_error \<Rightarrow>
               if api_error e then
                 (if mentions_quota (str_lower ms) e
                  then (Inl e, s1\<lparr>gemini_over_limit := True\<rparr>)
                  else if attempt = MAX_RETRIES - 1 then (Inl e, s1)
                  else gemini_attempts ms m prompt cfg rest s1)
               else (Inl e, s1)))"

definition generate_with_gemini :: "environment \<Rightarrow> gemini_model \<Rightarrow> string \<Rightarrow> string \<Rightarrow> session
    \<Rightarrow> (py_exception + string) \<times> session" where
  "generate_with_gemini ms m sit tn s =
     gemini_attempts ms m (gemini_prompt sit tn) (gemini_generation_config tn) [0..<MAX_RETRIES] s"

text \<open>
  The decorated function: a hit returns the stored text without running the body; a
  miss runs the body and stores what it returns (also the empty string); a raised
  exception passes through and stores nothing.
\<close>

definition generate_with_gemini_cached :: "environment \<Rightarrow> gemini_model \<Rightarrow> string \<Rightarrow> string
    \<Rightarrow> session \<Rightarrow> (py_exception + string) \<times> session" where
  "generate_with_gemini_cached ms m sit tn s =
     (case lru_lookup (sit, tn) (cache s) of
        Some v \<Rightarrow> (Inr v, s\<lparr>cache := lru_touch (sit, tn) v (cache s)\<rparr>)
      | None \<Rightarrow>
          (case generate_with_gemini ms m sit tn s of
             (Inr v, s1) \<Rightarrow> (Inr v, s1\<lparr>cache := lru_store (sit, tn) v (cache s1)\<rparr>)
           | (Inl e, s1) \<Rightarrow> (Inl e, s1)))"

subsection \<open>\<^verbatim>\<open>generate_with_gpt2\<close>\<close>

definition gpt2_prompt :: "string \<Rightarrow> string \<Rightarrow> string" where
  "gpt2_prompt sit tn = ''Write a '' @ tn @ '' apology for '' @ sit @ '':''"

definition gpt2_failure_text :: string where
  "gpt2_failure_text = ''Apology generation failed. Please try again.''"

text \<open>
  One call of the pipeline with \<^verbatim>\<open>max_length=100, num_return_sequences=1\<close>. The
  \<^verbatim>\<open>except Exception\<close> handler turns every exception into the returned string.
\<close>

definition generate_with_gpt2 :: "gpt2_model \<Rightarrow> string \<Rightarrow> string \<Rightarrow> session \<Rightarrow> string \<times> session" where
  "generate_with_gpt2 g sit tn s =
     (let prompt = gpt2_prompt sit tn;
          s1 = s\<lparr>gpt2_log := gpt2_log s @ [prompt]\<rparr>
      in case g (length (gpt2_log s)) prompt 100 1 of
           Inr generated_text \<Rightarrow> (py_strip (py_remove prompt generated_text), s1)
         | Inl e \<Rightarrow> (gpt2_failure_text, s1))"

subsection \<open>The "Generate Apology" branch of \<^verbatim>\<open>main\<close>\<close>

text \<open>
  A press of the button carries the two form inputs and the two clock readings that
  \<^verbatim>\<open>datetime.now()\<close> gives for the entry id and the timestamp.
\<close>

record request =
  req_situation :: string
  req_tone :: string
  req_id :: string
  req_timestamp :: string

datatype outcome =
    Rejected \<comment> \<open>\<^verbatim>\<open>st.error("Please describe your situation first!")\<close>\<close>
  | Shown string string \<comment> \<open>model name and apology written to the page\<close>
  | Failed \<comment> \<open>\<^verbatim>\<open>st.error("Failed to generate apology. Please try again.")\<close>\<close>

text \<open>
  The key under which \<^verbatim>\<open>main\<close> calls the memoised generator:
  \<^verbatim>\<open>(situation.strip().lower(), tone.lower())\<close>.
\<close>

definition cache_key :: "environment \<Rightarrow> request \<Rightarrow> string \<times> string" where
  "cache_key ms r = (str_lower ms (py_strip (req_situation r)), str_lower ms (req_tone r))"

text \<open>
  The \<^verbatim>\<open>try\<close> block: Gemini is asked only when the flag is unset and the model was
  configured. The result is the pair \<^verbatim>\<open>(apology, model_used)\<close> and the new state; an
  exception leaves both strings empty, and sets the flag when it mentions the quota.
\<close>

definition try_gemini :: "environment \<Rightarrow> session \<Rightarrow> request \<Rightarrow> (string \<times> string) \<times> session" where
  "try_gemini ms s r =
     (if \<not> gemini_over_limit s then
        (case gemini ms of
           Some m \<Rightarrow>
             (case generate_with_gemini_cached ms m
                     (str_lower ms (py_strip (req_situation r))) (str_lower ms (req_tone r)) s of
                (Inr text, s1) \<Rightarrow> ((text, ''Gemini''), s1)
              | (Inl e, s1) \<Rightarrow>
                  (([], []),
                   if mentions_quota (str_lower ms) e then s1\<lparr>gemini_over_limit := True\<rparr> else s1))
         | None \<Rightarrow> (([], []), s))
      else (([], []), s))"

text \<open>The fallback: GPT-2 is asked when the apology is still empty.\<close>

definition try_gpt2 :: "environment \<Rightarrow> (string \<times> string) \<times> session \<Rightarrow> request
    \<Rightarrow> (string \<times> string) \<times> session" where
  "try_gpt2 ms as r =
     (case as of ((apology_text, model_used), s) \<Rightarrow>
        (if apology_text = [] then
           (case gpt2 ms of
              Some g \<Rightarrow>
                (case generate_with_gpt2 g
                        (str_lower ms (py_strip (req_situation r))) (str_lower ms (req_tone r)) s of
                   (text, s1) \<Rightarrow> ((text, ''GPT-2''), s1))
            | None \<Rightarrow> ((apology_text, model_used), s))
         else ((apology_text, model_used), s)))"

definition new_entry :: "request \<Rightarrow> string \<Rightarrow> string \<Rightarrow> history_entry" where
  "new_entry r apology_text model_used =
     \<lparr>entry_id = req_id r, timestamp = req_timestamp r, situation = req_situation r,
      tone = req_tone r, apology = apology_text, model = model_used, feedback = None\<rparr>"

text \<open>
  The branch itself, from the state and the table that the run has when the button
  press is handled.
\<close>

definition submit :: "environment \<Rightarrow> session \<Rightarrow> request \<Rightarrow> outcome \<times> session" where
  "submit ms s r =
     (if py_strip (req_situation r) = [] then (Rejected, s)
      else
        (case try_gpt2 ms (try_gemini ms s r) r of
           ((apology_text, model_used), s2) \<Rightarrow>
             (if apology_text \<noteq> []
              then (Shown model_used apology_text,
                    s2\<lparr>history := history s2 @ [new_entry r apology_text model_used]\<rparr>)
              else (Failed, s2))))"

text \<open>
  \<^verbatim>\<open>app.py\<close> is a Streamlit script: every press of a button executes the file again
  from its first line. Line 32 then decorates a new function, whose table is empty,
  while \<^verbatim>\<open>st.session_state\<close> keeps its keys. A press is therefore the branch of
  \<^verbatim>\<open>main\<close> run on an empty table, and a session is a sequence of presses.
\<close>

definition press :: "environment \<Rightarrow> session \<Rightarrow> request \<Rightarrow> outcome \<times> session" where
  "press ms s r = submit ms (s\<lparr>cache := []\<rparr>) r"

fun run :: "environment \<Rightarrow> session \<Rightarrow> request list \<Rightarrow> session" where
  "run ms s [] = s"
| "run ms s (r # rs) = run ms (snd (press ms s r)) rs"

definition initial_session :: session where
  "initial_session =
     \<lparr>gemini_over_limit = False, history = [], cache = [], gemini_log = [], gpt2_log = []\<rparr>"

subsection \<open>Sample requests, models and environments\<close>

text \<open>
  Concrete inputs on which the theorems below are evaluated. The sample environments
  have no \<^verbatim>\<open>genai.APIError\<close>, as the library has none, and lower-case the letters A
  to Z, which is what \<^verbatim>\<open>str.lower\<close> does on the ASCII strings of the samples.
\<close>

definition ascii_lower_char :: "char \<Rightarrow> char" where
  "ascii_lower_char c =
     (case map_of (zip ''ABCDEFGHIJKLMNOPQRSTUVWXYZ'' ''abcdefghijklmnopqrstuvwxyz'') c of
        Some l \<Rightarrow> l
      | None \<Rightarrow> c)"

definition ascii_lower :: "string \<Rightarrow> string" where
  "ascii_lower s = map ascii_lower_char s"

definition request_late :: request where
  "request_late = \<lparr>req_situation = '' I Was Late '', req_tone = ''sincere'',
     req_id = ''20240101100000000001'', req_timestamp = ''2024-01-01 10:00''\<rparr>"

definition request_late_again :: request where
  "request_late_again = \<lparr>req_situation = ''i was late'', req_tone = ''sincere'',
     req_id = ''20240101100200000003'', req_timestamp = ''2024-01-01 10:02''\<rparr>"

definition request_phone :: request where
  "request_phone = \<lparr>req_situation = ''I broke your phone'', req_tone = ''funny'',
     req_id = ''20240101100100000002'', req_timestamp = ''2024-01-01 10:01''\<rparr>"

definition request_nbsp :: request where
  \<comment> \<open>a situation made of a no-break space, U+00A0, and a space\<close>
  "request_nbsp = \<lparr>req_situation = [CHR 0xC2, CHR 0xA0, CHR 0x20], req_tone = ''formal'',
     req_id = ''20240101100300000004'', req_timestamp = ''2024-01-01 10:03''\<rparr>"

definition gemini_text :: gemini_model where
  "gemini_text n prompt cfg = Inr ''I am sorry I was late.''"

definition gemini_text_then_quota :: gemini_model where
  "gemini_text_then_quota n prompt cfg =
     (if n = 0 then Inr ''I am sorry I was late.''
      else Inl (Raised ''ResourceExhausted'' ''429 Quota exceeded''))"

definition gemini_quota :: gemini_model where
  "gemini_quota n prompt cfg = Inl (Raised ''ResourceExhausted'' ''429 Quota exceeded'')"

definition gemini_unavailable :: gemini_model where
  "gemini_unavailable n prompt cfg = Inl (Raised ''ServiceUnavailable'' ''503 Service unavailable'')"

definition gemini_empty_text :: gemini_model where
  "gemini_empty_text n prompt cfg = Inr []"

definition gpt2_continues :: gpt2_model where
  "gpt2_continues n prompt max_length num_return_sequences = Inr (prompt @ '' I am so sorry. '')"

definition gpt2_raises :: gpt2_model where
  "gpt2_raises n prompt max_length num_return_sequences = Inl (Raised ''RuntimeError'' ''out of memory'')"

definition models_text :: environment where
  "models_text = \<lparr>gemini = Some gemini_text, gpt2 = Some gpt2_continues,
     str_lower = ascii_lower, genai_APIError = None\<rparr>"

definition models_quota :: environment where
  "models_quota = \<lparr>gemini = Some gemini_quota, gpt2 = Some gpt2_continues,
     str_lower = ascii_lower, genai_APIError = None\<rparr>"

definition models_text_then_quota :: environment where
  "models_text_then_quota = \<lparr>gemini = Some gemini_text_then_quota, gpt2 = Some gpt2_continues,
     str_lower = ascii_lower, genai_APIError = None\<rparr>"

definition models_empty_text :: environment where
  "models_empty_text = \<lparr>gemini = Some gemini_empty_text, gpt2 = Some gpt2_continues,
     str_lower = ascii_lower, genai_APIError = None\<rparr>"

definition models_gpt2_raises :: environment where
  "models_gpt2_raises = \<lparr>gemini = Some gemini_unavailable, gpt2 = Some gpt2_raises,
     str_lower = ascii_lower, genai_APIError = None\<rparr>"

section \<open>Facts about the generators\<close>

subsection \<open>The retry loop\<close>

lemma gemini_attempts_frame:
  "history (snd (gemini_attempts ms m p c atts s)) = history s
   \<and> cache (snd (gemini_attempts ms m p c atts s)) = cache s
   \<and> gpt2_log (snd (gemini_attempts ms m p c atts s)) = gpt2_log s"
  by (induction atts arbitrary: s) (auto simp: Let_def split: sum.splits option.splits)

lemma gemini_attempts_log:
  "\<exists>k\<le>length atts. gemini_log (snd (gemini_attempts ms m p c atts s)) = gemini_log s @ replicate k (p, c)"
proof (induction atts arbitrary: s)
  case Nil
  then show ?case by simp
next
  case (Cons a atts)
  let ?s1 = "s\<lparr>gemini_log := gemini_log s @ [(p, c)]\<rparr>"
  from Cons.IH [of ?s1] obtain k where k: "k \<le> length atts"
    "gemini_log (snd (gemini_attempts ms m p c atts ?s1)) = gemini_log ?s1 @ replicate k (p, c)"
    by blast
  have one: "gemini_log ?s1 = gemini_log s @ replicate (Suc 0) (p, c)" by simp
  have more: "gemini_log (snd (gemini_attempts ms m p c atts ?s1)) = gemini_log s @ replicate (Suc k) (p, c)"
    using k(2) by (simp add: replicate_app_Cons_same)
  show ?case
  proof (cases "m (length (gemini_log s)) p c")
    case (Inr v)
    then show ?thesis using one by (intro exI [of _ "Suc 0"]) (simp add: Let_def)
  next
    case (Inl e)
    show ?thesis
    proof (cases "\<exists>api_error. genai_APIError ms = Some api_error \<and> api_error e
                    \<and> \<not> mentions_quota (str_lower ms) e \<and> a \<noteq> MAX_RETRIES - 1")
      case True
      then show ?thesis using Inl more k(1)
        by (intro exI [of _ "Suc k"]) (auto simp add: Let_def)
    next
      case False
      then show ?thesis using Inl one
        by (intro exI [of _ "Suc 0"]) (auto simp add: Let_def split: option.splits)
    qed
  qed
qed


lemma generate_with_gemini_frame:
  "history (snd (generate_with_gemini ms m sit tn s)) = history s
   \<and> cache (snd (generate_with_gemini ms m sit tn s)) = cache s
   \<and> gpt2_log (snd (generate_with_gemini ms m sit tn s)) = gpt2_log s"
  by (simp add: generate_with_gemini_def gemini_attempts_frame)

lemma generate_with_gemini_log:
  "\<exists>k\<le>MAX_RETRIES. gemini_log (snd (generate_with_gemini ms m sit tn s))
      = gemini_log s @ replicate k (gemini_prompt sit tn, gemini_generation_config tn)"
  using gemini_attempts_log [of "[0..<MAX_RETRIES]" ms m "gemini_prompt sit tn" "gemini_generation_config tn" s]
  by (simp add: generate_with_gemini_def)


subsection \<open>The memoised generator\<close>

lemma lru_lookup_touch: "lru_lookup k (lru_touch k v c) = Some v"
  by (simp add: lru_lookup_def lru_touch_def)

lemma lru_lookup_store: "lru_lookup k (lru_store k v c) = Some v"
  by (simp add: lru_lookup_def lru_store_def)

lemma cached_hit:
  "lru_lookup (sit, tn) (cache s) = Some v
   \<Longrightarrow> generate_with_gemini_cached ms m sit tn s = (Inr v, s\<lparr>cache := lru_touch (sit, tn) v (cache s)\<rparr>)"
  by (simp add: generate_with_gemini_cached_def)

lemma cached_miss:
  "lru_lookup (sit, tn) (cache s) = None
   \<Longrightarrow> generate_with_gemini_cached ms m sit tn s =
       (case generate_with_gemini ms m sit tn s of
          (Inr v, s1) \<Rightarrow> (Inr v, s1\<lparr>cache := lru_store (sit, tn) v (cache s1)\<rparr>)
        | (Inl e, s1) \<Rightarrow> (Inl e, s1))"
  by (simp add: generate_with_gemini_cached_def)

lemma cached_frame:
  "history (snd (generate_with_gemini_cached ms m sit tn s)) = history s
   \<and> gpt2_log (snd (generate_with_gemini_cached ms m sit tn s)) = gpt2_log s"
  using generate_with_gemini_frame [of ms m sit tn s]
  by (auto simp: generate_with_gemini_cached_def split: option.splits prod.splits sum.splits)

lemma cached_log:
  "\<exists>k\<le>MAX_RETRIES. gemini_log (snd (generate_with_gemini_cached ms m sit tn s))
      = gemini_log s @ replicate k (gemini_prompt sit tn, gemini_generation_config tn)"
proof (cases "lru_lookup (sit, tn) (cache s)")
  case (Some v)
  then show ?thesis by (intro exI [of _ 0]) (simp add: cached_hit)
next
  case None
  from generate_with_gemini_log [of ms m sit tn s] obtain k where
    "k \<le> MAX_RETRIES" "gemini_log (snd (generate_with_gemini ms m sit tn s))
      = gemini_log s @ replicate k (gemini_prompt sit tn, gemini_generation_config tn)"
    by blast
  then show ?thesis using None
    by (intro exI [of _ k]) (auto simp: cached_miss split: prod.splits sum.splits)
qed

lemma cached_result_stored:
  "fst (generate_with_gemini_cached ms m sit tn s) = Inr v
   \<Longrightarrow> lru_lookup (sit, tn) (cache (snd (generate_with_gemini_cached ms m sit tn s))) = Some v"
  by (auto simp: generate_with_gemini_cached_def lru_lookup_touch lru_lookup_store
           split: option.splits prod.splits sum.splits)

lemma cached_raise_cache:
  "fst (generate_with_gemini_cached ms m sit tn s) = Inl e
   \<Longrightarrow> cache (snd (generate_with_gemini_cached ms m sit tn s)) = cache s"
  using generate_with_gemini_frame [of ms m sit tn s]
  by (auto simp: generate_with_gemini_cached_def split: option.splits prod.splits sum.splits)

subsection \<open>The two stages of the dispatch\<close>

lemma try_gemini_skip:
  "gemini_over_limit s \<or> gemini ms = None \<Longrightarrow> try_gemini ms s r = (([], []), s)"
  by (auto simp: try_gemini_def)

lemma try_gemini_frame:
  "history (snd (try_gemini ms s r)) = history s
   \<and> gpt2_log (snd (try_gemini ms s r)) = gpt2_log s"
proof (cases "gemini_over_limit s \<or> gemini ms = None")
  case True
  then show ?thesis by (simp add: try_gemini_skip)
next
  case False
  then obtain m where m: "gemini ms = Some m" by auto
  from cached_frame [of ms m "str_lower ms (py_strip (req_situation r))" "str_lower ms (req_tone r)" s]
  show ?thesis using False m
    by (auto simp: try_gemini_def split: prod.splits sum.splits)
qed

lemma try_gemini_log:
  "\<exists>k\<le>MAX_RETRIES. gemini_log (snd (try_gemini ms s r))
      = gemini_log s @ replicate k (gemini_prompt (fst (cache_key ms r)) (snd (cache_key ms r)),
                                    gemini_generation_config (snd (cache_key ms r)))"
proof (cases "gemini_over_limit s \<or> gemini ms = None")
  case True
  then show ?thesis by (intro exI [of _ 0]) (simp add: try_gemini_skip)
next
  case False
  then obtain m where m: "gemini ms = Some m" by auto
  from cached_log [of ms m "fst (cache_key ms r)" "snd (cache_key ms r)" s] obtain k where
    "k \<le> MAX_RETRIES" "gemini_log (snd (generate_with_gemini_cached ms m (fst (cache_key ms r)) (snd (cache_key ms r)) s))
      = gemini_log s @ replicate k (gemini_prompt (fst (cache_key ms r)) (snd (cache_key ms r)),
                                    gemini_generation_config (snd (cache_key ms r)))"
    by blast
  then show ?thesis using False m
    by (intro exI [of _ k]) (auto simp: try_gemini_def cache_key_def split: prod.splits sum.splits)
qed

lemma try_gemini_text:
  "fst (fst (try_gemini ms s r)) \<noteq> []
   \<Longrightarrow> snd (fst (try_gemini ms s r)) = ''Gemini''
       \<and> lru_lookup (cache_key ms r) (cache (snd (try_gemini ms s r))) = Some (fst (fst (try_gemini ms s r)))"
proof (cases "gemini_over_limit s \<or> gemini ms = None")
  case True
  assume "fst (fst (try_gemini ms s r)) \<noteq> []"
  with True show ?thesis by (simp add: try_gemini_skip)
next
  case False
  assume nonempty: "fst (fst (try_gemini ms s r)) \<noteq> []"
  from False obtain m where m: "gemini ms = Some m" by auto
  show ?thesis
  proof (cases "fst (generate_with_gemini_cached ms m (fst (cache_key ms r)) (snd (cache_key ms r)) s)")
    case (Inl e)
    with nonempty False m show ?thesis
      by (auto simp: try_gemini_def cache_key_def split: prod.splits sum.splits)
  next
    case (Inr v)
    from cached_result_stored [OF Inr] Inr show ?thesis using False m
      by (auto simp: try_gemini_def cache_key_def split: prod.splits sum.splits)
  qed
qed

lemma try_gemini_cache:
  "cache (snd (try_gemini ms s r)) = cache s
   \<or> lru_lookup (cache_key ms r) (cache (snd (try_gemini ms s r))) = Some (fst (fst (try_gemini ms s r)))"
proof (cases "gemini_over_limit s \<or> gemini ms = None")
  case True
  then show ?thesis by (simp add: try_gemini_skip)
next
  case False
  then obtain m where m: "gemini ms = Some m" by auto
  show ?thesis
  proof (cases "fst (generate_with_gemini_cached ms m (fst (cache_key ms r)) (snd (cache_key ms r)) s)")
    case (Inl e)
    from cached_raise_cache [OF Inl] Inl show ?thesis using False m
      by (auto simp: try_gemini_def cache_key_def split: prod.splits sum.splits)
  next
    case (Inr v)
    from cached_result_stored [OF Inr] Inr show ?thesis using False m
      by (auto simp: try_gemini_def cache_key_def split: prod.splits sum.splits)
  qed
qed

lemma generate_with_gpt2_frame:
  "gemini_over_limit (snd (generate_with_gpt2 g sit tn s)) = gemini_over_limit s
   \<and> history (snd (generate_with_gpt2 g sit tn s)) = history s
   \<and> cache (snd (generate_with_gpt2 g sit tn s)) = cache s
   \<and> gemini_log (snd (generate_with_gpt2 g sit tn s)) = gemini_log s
   \<and> gpt2_log (snd (generate_with_gpt2 g sit tn s)) = gpt2_log s @ [gpt2_prompt sit tn]"
  by (simp add: generate_with_gpt2_def Let_def split: sum.splits)

lemma try_gpt2_keep:
  "fst a \<noteq> [] \<or> gpt2 ms = None \<Longrightarrow> try_gpt2 ms (a, s) r = (a, s)"
  by (auto simp: try_gpt2_def split: prod.splits)

lemma try_gpt2_call:
  "fst a = [] \<Longrightarrow> gpt2 ms = Some g
   \<Longrightarrow> try_gpt2 ms (a, s) r =
       ((fst (generate_with_gpt2 g (fst (cache_key ms r)) (snd (cache_key ms r)) s), ''GPT-2''),
        snd (generate_with_gpt2 g (fst (cache_key ms r)) (snd (cache_key ms r)) s))"
  by (auto simp: try_gpt2_def cache_key_def split: prod.splits)

lemma try_gpt2_frame:
  "gemini_over_limit (snd (try_gpt2 ms (a, s) r)) = gemini_over_limit s
   \<and> history (snd (try_gpt2 ms (a, s) r)) = history s
   \<and> cache (snd (try_gpt2 ms (a, s) r)) = cache s
   \<and> gemini_log (snd (try_gpt2 ms (a, s) r)) = gemini_log s"
proof (cases "fst a \<noteq> [] \<or> gpt2 ms = None")
  case True
  then show ?thesis by (simp add: try_gpt2_keep)
next
  case False
  then obtain g where "gpt2 ms = Some g" by auto
  with False show ?thesis by (simp add: try_gpt2_call generate_with_gpt2_frame)
qed

lemma try_gpt2_model_used:
  "fst (fst (try_gpt2 ms (a, s) r)) \<noteq> []
   \<Longrightarrow> (fst a \<noteq> [] \<and> try_gpt2 ms (a, s) r = (a, s))
       \<or> (fst a = [] \<and> snd (fst (try_gpt2 ms (a, s) r)) = ''GPT-2'')"
  by (cases "gpt2 ms") (auto simp: try_gpt2_def split: prod.splits)

subsection \<open>One run of the branch\<close>

lemma submit_rejected:
  "py_strip (req_situation r) = [] \<Longrightarrow> submit ms s r = (Rejected, s)"
  by (simp add: submit_def)

lemma submit_accepted:
  "py_strip (req_situation r) \<noteq> [] \<Longrightarrow>
   submit ms s r =
     (if fst (fst (try_gpt2 ms (try_gemini ms s r) r)) \<noteq> []
      then (Shown (snd (fst (try_gpt2 ms (try_gemini ms s r) r))) (fst (fst (try_gpt2 ms (try_gemini ms s r) r))),
            (snd (try_gpt2 ms (try_gemini ms s r) r))
              \<lparr>history := history (snd (try_gpt2 ms (try_gemini ms s r) r)) @
                 [new_entry r (fst (fst (try_gpt2 ms (try_gemini ms s r) r)))
                              (snd (fst (try_gpt2 ms (try_gemini ms s r) r)))]\<rparr>)
      else (Failed, snd (try_gpt2 ms (try_gemini ms s r) r)))"
  by (simp add: submit_def split: prod.splits)

lemma try_gpt2_after_gemini_frame:
  "gemini_over_limit (snd (try_gpt2 ms (try_gemini ms s r) r)) = gemini_over_limit (snd (try_gemini ms s r))
   \<and> history (snd (try_gpt2 ms (try_gemini ms s r) r)) = history (snd (try_gemini ms s r))
   \<and> cache (snd (try_gpt2 ms (try_gemini ms s r) r)) = cache (snd (try_gemini ms s r))
   \<and> gemini_log (snd (try_gpt2 ms (try_gemini ms s r) r)) = gemini_log (snd (try_gemini ms s r))"
  using try_gpt2_frame [of ms "fst (try_gemini ms s r)" "snd (try_gemini ms s r)" r]
  by simp

lemma submit_fields:
  "gemini_over_limit (snd (submit ms s r)) =
     (if py_strip (req_situation r) = [] then gemini_over_limit s
      else gemini_over_limit (snd (try_gemini ms s r)))
   \<and> cache (snd (submit ms s r)) =
     (if py_strip (req_situation r) = [] then cache s else cache (snd (try_gemini ms s r)))
   \<and> gemini_log (snd (submit ms s r)) =
     (if py_strip (req_situation r) = [] then gemini_log s else gemini_log (snd (try_gemini ms s r)))"
  by (simp add: submit_rejected submit_accepted try_gpt2_after_gemini_frame)

lemma submit_gemini_log:
  "\<exists>k\<le>MAX_RETRIES. gemini_log (snd (submit ms s r))
      = gemini_log s @ replicate k (gemini_prompt (fst (cache_key ms r)) (snd (cache_key ms r)),
                                    gemini_generation_config (snd (cache_key ms r)))"
proof (cases "py_strip (req_situation r) = []")
  case True
  then show ?thesis by (intro exI [of _ 0]) (simp add: submit_rejected)
next
  case False
  with try_gemini_log [of ms s r] show ?thesis by (simp add: submit_fields)
qed

lemma submit_shown:
  assumes "fst (submit ms s r) = Shown mu v"
  shows "py_strip (req_situation r) \<noteq> [] \<and> v \<noteq> []
       \<and> ((fst (try_gemini ms s r) = (v, ''Gemini'') \<and> mu = ''Gemini'')
           \<or> (fst (fst (try_gemini ms s r)) = [] \<and> mu = ''GPT-2''))"
proof -
  from assms have valid: "py_strip (req_situation r) \<noteq> []"
    by (auto simp: submit_def split: if_splits)
  let ?T = "try_gemini ms s r"
  let ?R = "try_gpt2 ms ?T r"
  from assms valid have out: "fst (fst ?R) = v" "snd (fst ?R) = mu" "v \<noteq> []"
    by (auto simp: submit_accepted split: if_splits)
  from out have "fst (fst (try_gpt2 ms (fst ?T, snd ?T) r)) \<noteq> []" by simp
  from try_gpt2_model_used [OF this] out
  have "(fst (fst ?T) \<noteq> [] \<and> fst ?T = (v, mu)) \<or> (fst (fst ?T) = [] \<and> mu = ''GPT-2'')"
    by (auto simp: prod_eq_iff)
  moreover have "mu = ''Gemini''" if "fst (fst ?T) \<noteq> []" "fst ?T = (v, mu)"
    using try_gemini_text [OF that(1)] that(2) by simp
  ultimately show ?thesis using valid out(3) by auto
qed

text \<open>
  A situation made of white space only, also of white space beyond ASCII, is rejected
  before any model is asked.
\<close>

lemma blank_situation_rejected:
  "py_strip (req_situation request_nbsp) = []
   \<and> press models_text initial_session request_nbsp = (Rejected, initial_session)"
  by code_simp

section \<open>Feedback properties\<close>

text \<open>
  C6. Recording the same feedback value twice for the same entry id gives the same
  history as recording it once.
\<close>

theorem handle_feedback_idempotent:
  "handle_feedback (handle_feedback h eid b) eid b = handle_feedback h eid b"
  by (induction h) auto

text \<open>
  C7. When no entry of the history has the given id, \<^verbatim>\<open>handle_feedback\<close> leaves the
  whole history as it was; the function has no failing branch.
\<close>

theorem handle_feedback_unknown_id:
  "eid \<notin> entry_id ` set h \<Longrightarrow> handle_feedback h eid b = h"
  by (induction h) auto

theorem handle_feedback_unknown_id_witness:
  "''20240102'' \<notin> entry_id ` set
      [\<lparr>entry_id = ''20240101'', timestamp = ''2024-01-01 10:00'', situation = ''I was late'',
        tone = ''formal'', apology = ''Sorry.'', model = ''Gemini'', feedback = Some True\<rparr>]
   \<and> handle_feedback
      [\<lparr>entry_id = ''20240101'', timestamp = ''2024-01-01 10:00'', situation = ''I was late'',
        tone = ''formal'', apology = ''Sorry.'', model = ''Gemini'', feedback = Some True\<rparr>]
      ''20240102'' False
    = [\<lparr>entry_id = ''20240101'', timestamp = ''2024-01-01 10:00'', situation = ''I was late'',
        tone = ''formal'', apology = ''Sorry.'', model = ''Gemini'', feedback = Some True\<rparr>]"
  using handle_feedback_unknown_id
    [of "''20240102''"
        "[\<lparr>entry_id = ''20240101'', timestamp = ''2024-01-01 10:00'', situation = ''I was late'',
          tone = ''formal'', apology = ''Sorry.'', model = ''Gemini'', feedback = Some True\<rparr>]"
        False]
  by simp

text \<open>
  C8. \<^verbatim>\<open>handle_feedback\<close> writes the feedback field only: the ids, timestamps,
  situations, tones, apology texts and model names of the history, read in order, are
  the same before and after, and so is the length (no entry is removed or moved).
\<close>

theorem handle_feedback_frame:
  "length (handle_feedback h eid b) = length h
   \<and> map entry_id (handle_feedback h eid b) = map entry_id h
   \<and> map timestamp (handle_feedback h eid b) = map timestamp h
   \<and> map situation (handle_feedback h eid b) = map situation h
   \<and> map tone (handle_feedback h eid b) = map tone h
   \<and> map apology (handle_feedback h eid b) = map apology h
   \<and> map model (handle_feedback h eid b) = map model h"
  by (induction h) auto

section \<open>Dispatch properties\<close>

text \<open>
  C9. Every call that a request makes to the Gemini model carries the generation
  configuration computed from the (lower-cased) tone alone. The temperature is 0.7 for
  the tone "funny" and 0.3 for each of "formal", "friendly" and "sincere", so "funny"
  is strictly above the common value of the other three. The literals are compared as
  the decimal numbers they denote; the source does no arithmetic on them.
\<close>

theorem gemini_sampling_config_from_tone:
  "map snd (drop (length (gemini_log s)) (gemini_log (snd (submit ms s r))))
     = replicate (length (gemini_log (snd (submit ms s r))) - length (gemini_log s))
         (gemini_generation_config (str_lower ms (req_tone r)))
   \<and> temperature (gemini_generation_config ''formal'') = 3 / 10
   \<and> temperature (gemini_generation_config ''friendly'') = 3 / 10
   \<and> temperature (gemini_generation_config ''sincere'') = 3 / 10
   \<and> temperature (gemini_generation_config ''funny'') = 7 / 10
   \<and> temperature (gemini_generation_config ''formal'') < temperature (gemini_generation_config ''funny'')
   \<and> temperature (gemini_generation_config ''friendly'') < temperature (gemini_generation_config ''funny'')
   \<and> temperature (gemini_generation_config ''sincere'') < temperature (gemini_generation_config ''funny'')"
proof -
  from submit_gemini_log [of ms s r] obtain k where
    "gemini_log (snd (submit ms s r))
      = gemini_log s @ replicate k (gemini_prompt (fst (cache_key ms r)) (snd (cache_key ms r)),
                                    gemini_generation_config (snd (cache_key ms r)))"
    by blast
  then have "map snd (drop (length (gemini_log s)) (gemini_log (snd (submit ms s r))))
     = replicate (length (gemini_log (snd (submit ms s r))) - length (gemini_log s))
         (gemini_generation_config (str_lower ms (req_tone r)))"
    by (simp add: cache_key_def)
  then show ?thesis by (simp add: gemini_generation_config_def)
qed



text \<open>
  C4, on the code. The Gemini model answers the first request with an exception that
  mentions the quota. The lookup of \<^verbatim>\<open>genai.APIError\<close> in the \<^verbatim>\<open>except\<close> clause finds
  nothing, so what leaves \<^verbatim>\<open>generate_with_gemini\<close> is an \<^verbatim>\<open>AttributeError\<close>
  whose text does not mention the quota: neither line 50 nor line 117 sets the flag.
  The request is answered by GPT-2, the flag is unset after it, and the next request
  calls the Gemini model again.
\<close>

theorem quota_error_leaves_flag_unset:
  "gemini_quota 0 ''Write a funny apology note for: i broke your phone. Keep it under 3 sentences.''
        \<lparr>temperature = 7 / 10, max_output_tokens = 100\<rparr>
     = Inl (Raised ''ResourceExhausted'' ''429 Quota exceeded'')
   \<and> mentions_quota (str_lower models_quota) (Raised ''ResourceExhausted'' ''429 Quota exceeded'')
   \<and> fst (generate_with_gemini models_quota gemini_quota ''i broke your phone'' ''funny'' initial_session)
       = Inl attribute_error
   \<and> \<not> mentions_quota (str_lower models_quota) attribute_error
   \<and> fst (press models_quota initial_session request_phone) = Shown ''GPT-2'' ''I am so sorry.''
   \<and> \<not> gemini_over_limit (snd (press models_quota initial_session request_phone))
   \<and> \<not> gemini_over_limit (run models_quota initial_session [request_phone, request_late])
   \<and> map fst (gemini_log (run models_quota initial_session [request_phone, request_late]))
       = [''Write a funny apology note for: i broke your phone. Keep it under 3 sentences.'',
          ''Write a sincere apology note for: i was late. Keep it under 3 sentences.'']"
  by code_simp

text \<open>
  C3, on the code. A request is answered by Gemini, with the flag unset, and its text
  is stored in the table of that run. The same request, up to case and surrounding
  white space, is pressed again: the script runs again, the table of the newly
  decorated function is empty, and the Gemini model is called a second time with the
  same prompt.
\<close>

theorem repeated_request_calls_gemini_again:
  "cache_key models_text request_late_again = cache_key models_text request_late
   \<and> fst (press models_text initial_session request_late)
       = Shown ''Gemini'' ''I am sorry I was late.''
   \<and> \<not> gemini_over_limit (snd (press models_text initial_session request_late))
   \<and> lru_lookup (cache_key models_text request_late)
        (cache (snd (press models_text initial_session request_late)))
       = Some ''I am sorry I was late.''
   \<and> fst (press models_text (snd (press models_text initial_session request_late)) request_late_again)
       = Shown ''Gemini'' ''I am sorry I was late.''
   \<and> map fst (gemini_log (snd (press models_text
        (snd (press models_text initial_session request_late)) request_late_again)))
       = [''Write a sincere apology note for: i was late. Keep it under 3 sentences.'',
          ''Write a sincere apology note for: i was late. Keep it under 3 sentences.'']"
  by code_simp

text \<open>
  C2 as stated does not hold. A request answered by GPT-2 leaves the memoisation table
  empty, and the same request repeated calls GPT-2 again.
\<close>

theorem secondary_result_not_cached:
  "fst (submit models_quota initial_session request_phone) = Shown ''GPT-2'' ''I am so sorry.''
   \<and> lru_lookup (cache_key models_quota request_phone)
        (cache (snd (submit models_quota initial_session request_phone))) = None
   \<and> cache (snd (submit models_quota initial_session request_phone)) = []
   \<and> gpt2_log (snd (submit models_quota
        (snd (submit models_quota initial_session request_phone)) request_phone))
       = [''Write a funny apology for i broke your phone:'',
          ''Write a funny apology for i broke your phone:'']"
  by code_simp

text \<open>
  C2 (as amended). The table holds texts returned by Gemini only. After a request
  answered by Gemini the answer is the entry of the request's key. After a request
  answered by GPT-2 the table is what it was before the request, or the entry of the
  key is the empty text that Gemini returned; the text of GPT-2 is not stored.
\<close>

theorem cache_holds_primary_results_only:
  "(fst (submit ms s r) = Shown ''Gemini'' v
      \<longrightarrow> lru_lookup (cache_key ms r) (cache (snd (submit ms s r))) = Some v)
   \<and> (fst (submit ms s r) = Shown ''GPT-2'' v
      \<longrightarrow> cache (snd (submit ms s r)) = cache s
          \<or> lru_lookup (cache_key ms r) (cache (snd (submit ms s r))) = Some [])"
proof (intro conjI impI)
  assume a: "fst (submit ms s r) = Shown ''Gemini'' v"
  from submit_shown [OF a]
  have valid: "py_strip (req_situation r) \<noteq> []" and "v \<noteq> []"
    and primary: "fst (try_gemini ms s r) = (v, ''Gemini'')"
    by auto
  then have "fst (fst (try_gemini ms s r)) \<noteq> []" by simp
  from try_gemini_text [OF this] primary valid
  show "lru_lookup (cache_key ms r) (cache (snd (submit ms s r))) = Some v"
    by (simp add: submit_fields)
next
  assume a: "fst (submit ms s r) = Shown ''GPT-2'' v"
  from submit_shown [OF a]
  have valid: "py_strip (req_situation r) \<noteq> []"
    and empty: "fst (fst (try_gemini ms s r)) = []"
    by auto
  from try_gemini_cache [of ms s r] empty valid
  show "cache (snd (submit ms s r)) = cache s
          \<or> lru_lookup (cache_key ms r) (cache (snd (submit ms s r))) = Some []"
    by (simp add: submit_fields)
qed

theorem cache_holds_primary_results_only_witness:
  "fst (submit models_text_then_quota initial_session request_late)
     = Shown ''Gemini'' ''I am sorry I was late.''
   \<and> lru_lookup (cache_key models_text_then_quota request_late)
        (cache (snd (submit models_text_then_quota initial_session request_late)))
       = Some ''I am sorry I was late.''
   \<and> fst (submit models_empty_text initial_session request_late) = Shown ''GPT-2'' ''I am so sorry.''
   \<and> cache (snd (submit models_empty_text initial_session request_late)) \<noteq> cache initial_session
   \<and> lru_lookup (cache_key models_empty_text request_late)
        (cache (snd (submit models_empty_text initial_session request_late))) = Some []"
proof -
  have h1: "fst (submit models_text_then_quota initial_session request_late)
     = Shown ''Gemini'' ''I am sorry I was late.''"
    by code_simp
  have h2: "fst (submit models_empty_text initial_session request_late) = Shown ''GPT-2'' ''I am so sorry.''"
    by code_simp
  have h3: "cache (snd (submit models_empty_text initial_session request_late)) \<noteq> cache initial_session"
    by code_simp
  from cache_holds_primary_results_only
    [of models_text_then_quota initial_session request_late "''I am sorry I was late.''"]
    cache_holds_primary_results_only
    [of models_empty_text initial_session request_late "''I am so sorry.''"]
    h1 h2 h3
  show ?thesis by blast
qed

text \<open>
  C10. When the memoised Gemini generator returns the empty text without raising, and
  the GPT-2 model is there, the request calls GPT-2 once, as it does after an exception
  of Gemini; when the text that GPT-2 yields is not empty it is the text shown, and
  the entry appended to the history, the last one, has GPT-2 in its model field.
\<close>

theorem empty_primary_text_falls_back:
  assumes "py_strip (req_situation r) \<noteq> []" and "\<not> gemini_over_limit s"
      and "gemini ms = Some m" and "gpt2 ms = Some g"
      and "fst (generate_with_gemini_cached ms m (fst (cache_key ms r)) (snd (cache_key ms r)) s) = Inr []"
  shows "gpt2_log (snd (submit ms s r))
           = gpt2_log s @ [gpt2_prompt (fst (cache_key ms r)) (snd (cache_key ms r))]
       \<and> (\<forall>t. g (length (gpt2_log s)) (gpt2_prompt (fst (cache_key ms r)) (snd (cache_key ms r))) 100 1 = Inr t
               \<and> py_strip (py_remove (gpt2_prompt (fst (cache_key ms r)) (snd (cache_key ms r))) t) \<noteq> []
            \<longrightarrow> fst (submit ms s r)
                  = Shown ''GPT-2''
                      (py_strip (py_remove (gpt2_prompt (fst (cache_key ms r)) (snd (cache_key ms r))) t))
                \<and> history (snd (submit ms s r))
                  = history s @
                    [\<lparr>entry_id = req_id r, timestamp = req_timestamp r,
                      situation = req_situation r, tone = req_tone r,
                      apology = py_strip (py_remove (gpt2_prompt (fst (cache_key ms r)) (snd (cache_key ms r))) t),
                      model = ''GPT-2'', feedback = None\<rparr>]
                \<and> model (last (history (snd (submit ms s r)))) = ''GPT-2'')"
proof -
  let ?T = "try_gemini ms s r"
  let ?G = "generate_with_gpt2 g (fst (cache_key ms r)) (snd (cache_key ms r)) (snd ?T)"
  let ?p = "gpt2_prompt (fst (cache_key ms r)) (snd (cache_key ms r))"
  from assms(2,3,5) have empty: "fst (fst ?T) = []"
    by (auto simp: try_gemini_def cache_key_def split: prod.splits sum.splits)
  from try_gpt2_call [OF empty assms(4), of "snd ?T" r]
  have fallback: "try_gpt2 ms ?T r = ((fst ?G, ''GPT-2''), snd ?G)" by simp
  from try_gemini_frame [of ms s r]
  have same: "history (snd ?T) = history s" "gpt2_log (snd ?T) = gpt2_log s" by simp_all
  have log: "gpt2_log (snd (submit ms s r)) = gpt2_log s @ [?p]"
    using assms(1) fallback same by (simp add: submit_accepted generate_with_gpt2_frame)
  have shown: "fst (submit ms s r) = Shown ''GPT-2'' (py_strip (py_remove ?p t))
                \<and> history (snd (submit ms s r))
                  = history s @
                    [\<lparr>entry_id = req_id r, timestamp = req_timestamp r,
                      situation = req_situation r, tone = req_tone r,
                      apology = py_strip (py_remove ?p t),
                      model = ''GPT-2'', feedback = None\<rparr>]
                \<and> model (last (history (snd (submit ms s r)))) = ''GPT-2''"
    if "g (length (gpt2_log s)) ?p 100 1 = Inr t" "py_strip (py_remove ?p t) \<noteq> []" for t
  proof -
    from that(1) same have "fst ?G = py_strip (py_remove ?p t)"
      by (simp add: generate_with_gpt2_def Let_def)
    with that(2) assms(1) fallback same show ?thesis
      by (simp add: submit_accepted generate_with_gpt2_frame new_entry_def)
  qed
  from log shown show ?thesis by blast
qed

theorem empty_primary_text_falls_back_witness:
  "py_strip (req_situation request_late) \<noteq> []
   \<and> \<not> gemini_over_limit initial_session
   \<and> gemini models_empty_text = Some gemini_empty_text
   \<and> gpt2 models_empty_text = Some gpt2_continues
   \<and> fst (generate_with_gemini_cached models_empty_text gemini_empty_text
            (fst (cache_key models_empty_text request_late))
            (snd (cache_key models_empty_text request_late)) initial_session) = Inr []
   \<and> gpt2_continues 0 ''Write a sincere apology for i was late:'' 100 1
       = Inr ''Write a sincere apology for i was late: I am so sorry. ''
   \<and> gpt2_log (snd (submit models_empty_text initial_session request_late))
       = [''Write a sincere apology for i was late:'']
   \<and> fst (submit models_empty_text initial_session request_late) = Shown ''GPT-2'' ''I am so sorry.''
   \<and> history (snd (submit models_empty_text initial_session request_late))
       = [\<lparr>entry_id = ''20240101100000000001'', timestamp = ''2024-01-01 10:00'',
           situation = '' I Was Late '', tone = ''sincere'', apology = ''I am so sorry.'',
           model = ''GPT-2'', feedback = None\<rparr>]
   \<and> model (last (history (snd (submit models_empty_text initial_session request_late)))) = ''GPT-2''"
proof -
  have h1: "py_strip (req_situation request_late) \<noteq> []" by code_simp
  have h2: "\<not> gemini_over_limit initial_session" by code_simp
  have h3: "gemini models_empty_text = Some gemini_empty_text" by (simp add: models_empty_text_def)
  have h4: "gpt2 models_empty_text = Some gpt2_continues" by (simp add: models_empty_text_def)
  have h5: "fst (generate_with_gemini_cached models_empty_text gemini_empty_text
            (fst (cache_key models_empty_text request_late))
            (snd (cache_key models_empty_text request_late)) initial_session) = Inr []"
    by code_simp
  have p: "gpt2_prompt (fst (cache_key models_empty_text request_late))
             (snd (cache_key models_empty_text request_late))
      = ''Write a sincere apology for i was late:''"
    by code_simp
  have l: "gpt2_log initial_session = []" "history initial_session = []"
    by (simp_all add: initial_session_def)
  have f: "req_id request_late = ''20240101100000000001''"
    "req_timestamp request_late = ''2024-01-01 10:00''"
    "req_situation request_late = '' I Was Late ''" "req_tone request_late = ''sincere''"
    by (simp_all add: request_late_def)
  have h6: "gpt2_continues 0 ''Write a sincere apology for i was late:'' 100 1
       = Inr ''Write a sincere apology for i was late: I am so sorry. ''"
    by (simp add: gpt2_continues_def)
  have h7: "py_strip (py_remove ''Write a sincere apology for i was late:''
       ''Write a sincere apology for i was late: I am so sorry. '') = ''I am so sorry.''"
    by code_simp
  from empty_primary_text_falls_back [OF h1 h2 h3 h4 h5] h6 h7
  have "gpt2_log (snd (submit models_empty_text initial_session request_late))
       = [''Write a sincere apology for i was late:'']
   \<and> fst (submit models_empty_text initial_session request_late) = Shown ''GPT-2'' ''I am so sorry.''
   \<and> history (snd (submit models_empty_text initial_session request_late))
       = [\<lparr>entry_id = ''20240101100000000001'', timestamp = ''2024-01-01 10:00'',
           situation = '' I Was Late '', tone = ''sincere'', apology = ''I am so sorry.'',
           model = ''GPT-2'', feedback = None\<rparr>]
   \<and> model (last (history (snd (submit models_empty_text initial_session request_late)))) = ''GPT-2''"
    by (simp add: p l f)
  with h1 h2 h3 h4 h5 h6 show ?thesis by blast
qed

text \<open>
  C1, on the code. The call to Gemini raises and the GPT-2 pipeline raises: the
  handler of \<^verbatim>\<open>generate_with_gpt2\<close> returns its message, \<^verbatim>\<open>main\<close> shows the message as
  the apology generated by GPT-2 and appends an entry holding it to the history. The
  branch of \<^verbatim>\<open>main\<close> that reports a failed generation is not reached.
\<close>

theorem secondary_exception_recorded_as_apology:
  "fst (submit models_gpt2_raises initial_session request_late)
     = Shown ''GPT-2'' ''Apology generation failed. Please try again.''
   \<and> history (snd (submit models_gpt2_raises initial_session request_late))
     = [\<lparr>entry_id = ''20240101100000000001'', timestamp = ''2024-01-01 10:00'',
         situation = '' I Was Late '', tone = ''sincere'',
         apology = ''Apology generation failed. Please try again.'',
         model = ''GPT-2'', feedback = None\<rparr>]"
  by code_simp

end
